theory Spec2Isabelle
  imports Complex_Main
begin

section \<open>JavaScript values and strings\<close>

text \<open>
  A JavaScript string is a sequence of UTF-16 code units. The model covers the code
  units below 256 (the Latin-1 range), which is what a \<^typ>\<open>char\<close> holds; on that range
  \<open>trim\<close>, \<open>toLowerCase\<close>, \<open>includes\<close> and \<open>encodeURIComponent\<close> are modelled as
  ECMAScript defines them. The titles of the fallback dataset are ASCII.
\<close>

text \<open>
  The arguments that the service functions document as strings: a caller can still pass
  \<open>undefined\<close> or \<open>null\<close>.
\<close>

datatype jsarg = Undefined | Null | Str string

text \<open>
  A Number is modelled by its mathematical value (a rational; every finite double is
  one), or one of the three non-finite values. Both zeros have the value \<open>0\<close>.
\<close>

datatype jsnum = NaN | PosInfinity | NegInfinity | Finite rat

text \<open>Values as they arrive from \<open>response.json()\<close> or are passed to a formatter.\<close>

datatype jsval =
    VUndefined
  | VNull
  | VBool bool
  | VNum jsnum
  | VStr string
  | VArr "jsval list"
  | VObj "(string \<times> jsval) list"

datatype error =
    TypeError
  | RangeError
  | Error string

datatype 'a promise = Resolved 'a | Rejected error

text \<open>\<open>!v\<close> is \<open>\<not> truthy v\<close>.\<close>

fun truthy :: "jsval \<Rightarrow> bool" where
  "truthy VUndefined = False"
| "truthy VNull = False"
| "truthy (VBool b) = b"
| "truthy (VNum NaN) = False"
| "truthy (VNum (Finite x)) = (x \<noteq> 0)"
| "truthy (VNum _) = True"
| "truthy (VStr s) = (s \<noteq> [])"
| "truthy (VArr _) = True"
| "truthy (VObj _) = True"

fun truthy_arg :: "jsarg \<Rightarrow> bool" where
  "truthy_arg Undefined = False"
| "truthy_arg Null = False"
| "truthy_arg (Str s) = (s \<noteq> [])"

text \<open>\<open>ToString\<close>, as a template literal applies it.\<close>

fun to_string :: "jsarg \<Rightarrow> string" where
  "to_string Undefined = ''undefined''"
| "to_string Null = ''null''"
| "to_string (Str s) = s"

text \<open>
  White space and line terminators below 256: TAB, LF, VT, FF, CR, SP and NBSP.
\<close>

definition is_whitespace :: "char \<Rightarrow> bool" where
  "is_whitespace c = (of_char c \<in> {9, 10, 11, 12, 13, 32, 160 :: nat})"

definition trim :: "string \<Rightarrow> string" where
  "trim s = rev (dropWhile is_whitespace (rev (dropWhile is_whitespace s)))"

text \<open>
  \<open>toLowerCase\<close> on the Latin-1 range: A to Z and the accented capitals
  (0xC0 to 0xDE without the multiplication sign 0xD7) move up by 32.
\<close>

definition lower_char :: "char \<Rightarrow> char" where
  "lower_char c =
     (let n = (of_char c :: nat)
      in if (65 \<le> n \<and> n \<le> 90) \<or> (192 \<le> n \<and> n \<le> 222 \<and> n \<noteq> 215)
         then char_of (n + 32) else c)"

definition toLowerCase :: "string \<Rightarrow> string" where
  "toLowerCase s = map lower_char s"

definition startsWith :: "string \<Rightarrow> string \<Rightarrow> bool" where
  "startsWith s t = (take (length t) s = t)"

text \<open>\<open>s.includes(t)\<close>: the search string is looked for at every position of \<open>s\<close>.\<close>

fun str_includes :: "string \<Rightarrow> string \<Rightarrow> bool" where
  "str_includes [] t = (t = [])"
| "str_includes (c # s) t = (startsWith (c # s) t \<or> str_includes s t)"

text \<open>Decimal digits of a natural number, without leading zeros.\<close>

definition digit_char :: "nat \<Rightarrow> char" where
  "digit_char d = char_of (48 + d)"

fun digits :: "nat \<Rightarrow> string" where
  "digits n = (if n < 10 then [digit_char n] else digits (n div 10) @ [digit_char (n mod 10)])"

declare digits.simps [simp del]

definition hex_char :: "nat \<Rightarrow> char" where
  "hex_char d = (if d < 10 then char_of (48 + d) else char_of (55 + d))"

definition percent :: "nat \<Rightarrow> string" where
  "percent b = [CHR ''%'', hex_char (b div 16), hex_char (b mod 16)]"

text \<open>
  \<open>encodeURIComponent\<close>: letters, digits and \<open>- _ . ! ~ * ' ( )\<close> stay; any other code
  unit is written as the percent-escaped bytes of its UTF-8 encoding (one byte below
  128, two bytes from 128 to 255).
\<close>

definition unreserved :: "char \<Rightarrow> bool" where
  "unreserved c =
     (let n = (of_char c :: nat)
      in (65 \<le> n \<and> n \<le> 90) \<or> (97 \<le> n \<and> n \<le> 122) \<or> (48 \<le> n \<and> n \<le> 57)
         \<or> n \<in> {45, 95, 46, 33, 126, 42, 39, 40, 41})"

definition encode_char :: "char \<Rightarrow> string" where
  "encode_char c =
     (let n = (of_char c :: nat)
      in if unreserved c then [c]
         else if n < 128 then percent n
         else percent (192 + n div 64) @ percent (128 + n mod 64))"

definition encodeURIComponent :: "string \<Rightarrow> string" where
  "encodeURIComponent s = concat (map encode_char s)"

section \<open>The catalog client: \<open>services/api.js\<close>\<close>

text \<open>
  \<open>API_KEY\<close> is read from \<open>import.meta.env.REACT_APP_TMDB_API_KEY\<close>: a string when the
  variable is set, \<open>undefined\<close> (here \<open>None\<close>) when it is not. It is a parameter of
  every operation below.
\<close>

definition PLACEHOLDER_KEY :: string where
  "PLACEHOLDER_KEY = ''YOUR_TMDB_API_KEY''"

definition BASE_URL :: string where
  "BASE_URL = ''https://api.themoviedb.org/3''"

definition IMAGE_BASE_URL :: string where
  "IMAGE_BASE_URL = ''https://image.tmdb.org/t/p''"

definition key_string :: "string option \<Rightarrow> string" where
  "key_string k = (case k of None \<Rightarrow> ''undefined'' | Some s \<Rightarrow> s)"

record movie =
  movie_id :: int
  title :: string
  poster_path :: string
  backdrop_path :: string
  overview :: string
  vote_average :: rat
  release_date :: string

text \<open>
  The ratings are the doubles that the literals \<open>8.7\<close>, \<open>8.5\<close> and \<open>8.4\<close> denote.
\<close>

definition DUMMY_MOVIES :: "movie list" where
  "DUMMY_MOVIES = [
     \<lparr>movie_id = 1, title = ''The Shawshank Redemption'',
      poster_path = ''/q6y0Go1tsGEsmtFryDOJo3dEmqu.jpg'',
      backdrop_path = ''/kXfqcdQKsToO0OUXHcrrNCHDBzO.jpg'',
      overview = ''Framed in the 1940s for the double murder of his wife and her lover, upstanding banker Andy Dufresne begins a new life at the Shawshank prison.'',
      vote_average = 2448832297382707 / 281474976710656,
      release_date = ''1994-09-23''\<rparr>,
     \<lparr>movie_id = 2, title = ''The Godfather'',
      poster_path = ''/3bhkrj58Vtu7enYsRolD1fZdja1.jpg'',
      backdrop_path = ''/tmU7GeKVybMWFButWEGl2M4GeiP.jpg'',
      overview = ''Spanning the years 1945 to 1955, a chronicle of the fictional Italian-American Corleone crime family.'',
      vote_average = 2448832297382707 / 281474976710656,
      release_date = ''1972-03-14''\<rparr>,
     \<lparr>movie_id = 3, title = ''The Dark Knight'',
      poster_path = ''/qJ2tW6WMUDux911r6m7haRef0WH.jpg'',
      backdrop_path = ''/hkBaDkMWbLaf8B1lsWsKX7Ew3Xq.jpg'',
      overview = ''Batman raises the stakes in his war on crime with the help of Lt. Jim Gordon and District Attorney Harvey Dent.'',
      vote_average = 17 / 2,
      release_date = ''2008-07-16''\<rparr>,
     \<lparr>movie_id = 4, title = ''Pulp Fiction'',
      poster_path = ''/d5iIlFn5s0ImszYzBPb8JPIfbXD.jpg'',
      backdrop_path = ''/4cDFJr4HnXN5AdPw4AKrmLlMWdO.jpg'',
      overview = ''A burger-loving hit man, his philosophical partner, and a drug-addled gangster's moll.'',
      vote_average = 17 / 2,
      release_date = ''1994-09-10''\<rparr>,
     \<lparr>movie_id = 5, title = ''Forrest Gump'',
      poster_path = ''/arw2vcBveWOVZr6pxd9XTd1TdQa.jpg'',
      backdrop_path = ''/7c9UVPPiTPltouxRVY6N9uUaHNd.jpg'',
      overview = ''A man with a low IQ has accomplished great things in his life and been present during significant historic events.'',
      vote_average = 4728779608739021 / 562949953421312,
      release_date = ''1994-06-23''\<rparr>,
     \<lparr>movie_id = 6, title = ''Inception'',
      poster_path = ''/9gk7adHYeDvHkCSEqAvQNLV5Uge.jpg'',
      backdrop_path = ''/s3TBrRGB1iav7gFOCNx3H31MoES.jpg'',
      overview = ''Cobb, a skilled thief who commits corporate espionage by infiltrating the subconscious of his targets.'',
      vote_average = 4728779608739021 / 562949953421312,
      release_date = ''2010-07-15''\<rparr>]"

subsection \<open>The remote service and the effects of a call\<close>

record request =
  url :: string
  headers :: "(string \<times> string) list"

text \<open>
  What \<open>fetch\<close> settles with: it rejects (a transport error), or it resolves with a
  response that has an \<open>ok\<close> flag and a body; \<open>response.json()\<close> then rejects (\<open>None\<close>,
  the body is not JSON) or resolves with the parsed value. Every await of the source is
  taken to settle.
\<close>

datatype fetch_result = FetchRejected | Response bool "jsval option"

datatype effect =
    Fetch request
  | ConsoleWarn string
  | ConsoleError string

text \<open>What an operation resolves with: local movie records, or a value of the remote payload.\<close>

datatype returned =
    Movies "movie list"
  | OneMovie movie
  | Remote jsval

definition auth_headers :: "string option \<Rightarrow> (string \<times> string) list" where
  "auth_headers k =
     [(''Content-Type'', ''application/json''), (''Authorization'', ''Bearer '' @ key_string k)]"

definition WARN_DUMMY :: string where
  "WARN_DUMMY = ''Using dummy data - Please set your TMDB API key in services/api.js''"

text \<open>
  \<open>data.results\<close>: reading a property of \<open>null\<close> or \<open>undefined\<close> throws; an object gives
  the value of its last \<open>results\<close> member, anything else \<open>undefined\<close>.
\<close>

fun get_results :: "jsval \<Rightarrow> error + jsval" where
  "get_results VUndefined = Inl TypeError"
| "get_results VNull = Inl TypeError"
| "get_results (VObj kvs) =
     Inr (case map_of (rev kvs) ''results'' of None \<Rightarrow> VUndefined | Some v \<Rightarrow> v)"
| "get_results _ = Inr VUndefined"

subsection \<open>\<open>fetchPopularMovies\<close>\<close>

definition popular_request :: "string option \<Rightarrow> nat \<Rightarrow> request" where
  "popular_request k page =
     \<lparr>url = BASE_URL @ ''/movie/popular?api_key='' @ key_string k
             @ ''&language=en-US&page='' @ digits page,
      headers = auth_headers k\<rparr>"

definition fetchPopularMovies ::
  "string option \<Rightarrow> (request \<Rightarrow> fetch_result) \<Rightarrow> nat \<Rightarrow> returned promise \<times> effect list" where
  "fetchPopularMovies k net page =
     (if k = Some PLACEHOLDER_KEY
      then (Resolved (Movies DUMMY_MOVIES), [ConsoleWarn WARN_DUMMY])
      else
        let req = popular_request k page;
            caught = (Resolved (Movies DUMMY_MOVIES),
                      [Fetch req, ConsoleError ''Error fetching popular movies:''])
        in case net req of
             FetchRejected \<Rightarrow> caught
           | Response ok body \<Rightarrow>
               if \<not> ok then caught
               else (case body of
                       None \<Rightarrow> caught
                     | Some data \<Rightarrow>
                         (case get_results data of
                            Inl e \<Rightarrow> caught
                          | Inr r \<Rightarrow> (Resolved (Remote r), [Fetch req]))))"

subsection \<open>\<open>searchMovies\<close>\<close>

text \<open>
  The callback of \<open>DUMMY_MOVIES.filter\<close> runs once per record and calls
  \<open>query.toLowerCase()\<close> each time, which throws when \<open>query\<close> is not a string.
\<close>

fun filter_by_title :: "jsarg \<Rightarrow> movie list \<Rightarrow> error + movie list" where
  "filter_by_title query [] = Inr []"
| "filter_by_title query (m # ms) =
     (case query of
        Str q \<Rightarrow>
          (case filter_by_title query ms of
             Inl e \<Rightarrow> Inl e
           | Inr rest \<Rightarrow>
               Inr (if str_includes (toLowerCase (title m)) (toLowerCase q) then m # rest else rest))
      | _ \<Rightarrow> Inl TypeError)"

definition search_request :: "string option \<Rightarrow> string \<Rightarrow> nat \<Rightarrow> request" where
  "search_request k q page =
     \<lparr>url = BASE_URL @ ''/search/movie?api_key='' @ key_string k
             @ ''&language=en-US&query='' @ encodeURIComponent q
             @ ''&page='' @ digits page,
      headers = auth_headers k\<rparr>"

definition settle :: "error + movie list \<Rightarrow> returned promise" where
  "settle r = (case r of Inl e \<Rightarrow> Rejected e | Inr ms \<Rightarrow> Resolved (Movies ms))"

definition searchMovies ::
  "string option \<Rightarrow> (request \<Rightarrow> fetch_result) \<Rightarrow> jsarg \<Rightarrow> nat \<Rightarrow> returned promise \<times> effect list" where
  "searchMovies k net query page =
     (let caught = (\<lambda>effs. (settle (filter_by_title query DUMMY_MOVIES),
                           effs @ [ConsoleError ''Error searching movies:'']))
      in case query of
           Str q \<Rightarrow>
             if trim q = [] then (Resolved (Movies []), [])
             else if k = Some PLACEHOLDER_KEY
             then (settle (filter_by_title query DUMMY_MOVIES), [ConsoleWarn WARN_DUMMY])
             else
               let req = search_request k q page
               in (case net req of
                     FetchRejected \<Rightarrow> caught [Fetch req]
                   | Response ok body \<Rightarrow>
                       if \<not> ok then caught [Fetch req]
                       else (case body of
                               None \<Rightarrow> caught [Fetch req]
                             | Some data \<Rightarrow>
                                 (case get_results data of
                                    Inl e \<Rightarrow> caught [Fetch req]
                                  | Inr r \<Rightarrow> (Resolved (Remote r), [Fetch req]))))
         | _ \<Rightarrow> caught [])"

subsection \<open>\<open>fetchMovieDetails\<close>\<close>

text \<open>
  \<open>parseInt\<close> with no radix: leading white space is skipped, a sign is read, a
  \<open>0x\<close> or \<open>0X\<close> prefix selects radix 16, and the longest run of digits of the radix
  is the number; with no digit the result is \<open>NaN\<close> (here \<open>None\<close>). JavaScript rounds
  the integer to a double, which does not change whether it equals one of the small
  ids it is compared with, so the model keeps the integer.
\<close>

definition digit_val :: "char \<Rightarrow> nat option" where
  "digit_val c =
     (let n = (of_char c :: nat)
      in if 48 \<le> n \<and> n \<le> 57 then Some (n - 48)
         else if 97 \<le> n \<and> n \<le> 122 then Some (n - 87)
         else if 65 \<le> n \<and> n \<le> 90 then Some (n - 55)
         else None)"

definition is_radix_digit :: "nat \<Rightarrow> char \<Rightarrow> bool" where
  "is_radix_digit R c = (case digit_val c of None \<Rightarrow> False | Some d \<Rightarrow> d < R)"

definition number_of :: "nat \<Rightarrow> string \<Rightarrow> nat" where
  "number_of R ds = foldl (\<lambda>acc c. acc * R + (case digit_val c of None \<Rightarrow> 0 | Some d \<Rightarrow> d)) 0 ds"

definition parseInt :: "jsarg \<Rightarrow> int option" where
  "parseInt x =
     (let s = dropWhile is_whitespace (to_string x);
          neg = startsWith s ''-'';
          s1 = (if startsWith s ''+'' \<or> startsWith s ''-'' then tl s else s);
          hex = (startsWith s1 ''0x'' \<or> startsWith s1 ''0X'');
          R = (if hex then 16 else 10);
          s2 = (if hex then drop 2 s1 else s1);
          z = takeWhile (is_radix_digit R) s2
      in if z = [] then None
         else Some ((if neg then - 1 else 1) * int (number_of R z)))"

text \<open>
  \<open>DUMMY_MOVIES.find(m => m.id === parseInt(movieId)) || DUMMY_MOVIES[0]\<close>: the dataset
  is a non-empty constant, so index 0 exists.
\<close>

definition fallback_movie :: "jsarg \<Rightarrow> movie" where
  "fallback_movie movieId =
     (case find (\<lambda>m. Some (movie_id m) = parseInt movieId) DUMMY_MOVIES of
        Some m \<Rightarrow> m
      | None \<Rightarrow> DUMMY_MOVIES ! 0)"

definition details_request :: "string option \<Rightarrow> jsarg \<Rightarrow> request" where
  "details_request k movieId =
     \<lparr>url = BASE_URL @ ''/movie/'' @ to_string movieId @ ''?api_key='' @ key_string k
             @ ''&language=en-US'',
      headers = auth_headers k\<rparr>"

definition fetchMovieDetails ::
  "string option \<Rightarrow> (request \<Rightarrow> fetch_result) \<Rightarrow> jsarg \<Rightarrow> returned promise \<times> effect list" where
  "fetchMovieDetails k net movieId =
     (if k = Some PLACEHOLDER_KEY
      then (Resolved (OneMovie (fallback_movie movieId)), [ConsoleWarn WARN_DUMMY])
      else
        let req = details_request k movieId;
            caught = (Resolved (OneMovie (fallback_movie movieId)),
                      [Fetch req, ConsoleError ''Error fetching movie details:''])
        in case net req of
             FetchRejected \<Rightarrow> caught
           | Response ok body \<Rightarrow>
               if \<not> ok then caught
               else (case body of
                       None \<Rightarrow> caught
                     | Some data \<Rightarrow> (Resolved (Remote data), [Fetch req])))"

subsection \<open>Formatting helpers\<close>

definition PLACEHOLDER_IMAGE :: string where
  "PLACEHOLDER_IMAGE = ''https://via.placeholder.com/500x750?text=No+Image''"

text \<open>The size is \<open>None\<close> when the caller omits it; the default is \<open>w500\<close>.\<close>

definition getImageUrl :: "jsarg \<Rightarrow> string option \<Rightarrow> string" where
  "getImageUrl path size_token =
     (if \<not> truthy_arg path then PLACEHOLDER_IMAGE
      else IMAGE_BASE_URL @ ''/'' @ (case size_token of None \<Rightarrow> ''w500'' | Some sz \<Rightarrow> sz)
           @ to_string path)"

text \<open>
  \<open>Number.prototype.toFixed(f)\<close>, step by step as ECMAScript gives it. A value that is
  not finite is rendered by name. From \<open>10^21\<close> on the result is the engine's
  \<open>Number::toString\<close> (exponent notation), which is not part of the repository: it is
  the parameter \<open>n2s\<close>. Below that, \<open>n\<close> is the integer nearest to \<open>x * 10^f\<close> (the
  larger one on a tie), its digits are padded with zeros to \<open>f + 1\<close> places, and a
  point is set before the last \<open>f\<close> digits.
\<close>

definition toFixed :: "(rat \<Rightarrow> string) \<Rightarrow> nat \<Rightarrow> jsnum \<Rightarrow> error + string" where
  "toFixed n2s f x =
     (if f > 100 then Inl RangeError
      else Inr (case x of
        NaN \<Rightarrow> ''NaN''
      | PosInfinity \<Rightarrow> ''Infinity''
      | NegInfinity \<Rightarrow> ''-Infinity''
      | Finite r \<Rightarrow>
          (let s = (if r < 0 then ''-'' else []);
               a = \<bar>r\<bar>
           in if a \<ge> 10 ^ 21 then s @ n2s a
              else
                let n = nat \<lfloor>a * 10 ^ f + 1 / 2\<rfloor>;
                    m = digits n;
                    m2 = (if length m \<le> f then replicate (f + 1 - length m) CHR ''0'' @ m else m);
                    k = length m2
                in s @ (if f \<noteq> 0 then take (k - f) m2 @ ''.'' @ drop (k - f) m2 else m2))))"

text \<open>
  \<open>rating.toFixed\<close> is a function only when \<open>rating\<close> is a number; calling it on any
  other truthy value throws.
\<close>

definition formatRating :: "(rat \<Rightarrow> string) \<Rightarrow> jsval \<Rightarrow> error + string" where
  "formatRating n2s rating =
     (if \<not> truthy rating then Inr ''N/A''
      else case rating of
             VNum x \<Rightarrow> toFixed n2s 1 x
           | _ \<Rightarrow> Inl TypeError)"

section \<open>The list view: \<open>pages/Home.jsx\<close>\<close>

text \<open>
  The component state (\<open>movies\<close>, \<open>searchQuery\<close>, \<open>loading\<close>, \<open>error\<close>, \<open>isSearching\<close>)
  together with what the browser and React hold for it: the pending timeouts (id, due
  time in ms, and the query that the \<open>handleSearch\<close> closure of that render carries),
  the cleanup function that the last run of the search effect returned (the timeout id
  it will clear, or \<open>None\<close> when the effect returned nothing), a clock, and the calls
  made to the catalog client with the time of each.
\<close>

datatype client_call = FetchPopularMovies | SearchMovies string

record home =
  movies :: returned
  searchQuery :: string
  loading :: bool
  error :: "string option"
  isSearching :: bool
  timers :: "(nat \<times> nat \<times> string) list"
  cleanup :: "nat option"
  next_id :: nat
  clock :: nat
  calls :: "(nat \<times> client_call) list"

text \<open>
  \<open>loadPopularMovies\<close> and \<open>handleSearch\<close> up to their \<open>await\<close>: the flags are set and
  the client is called. \<open>handleSearch\<close> passes the \<open>searchQuery\<close> of the render it was
  created in.
\<close>

definition loadPopularMovies :: "home \<Rightarrow> home" where
  "loadPopularMovies st =
     st\<lparr>loading := True, error := None,
        calls := calls st @ [(clock st, FetchPopularMovies)]\<rparr>"

definition handleSearch :: "string \<Rightarrow> home \<Rightarrow> home" where
  "handleSearch q st =
     st\<lparr>loading := True, error := None, isSearching := True,
        calls := calls st @ [(clock st, SearchMovies q)]\<rparr>"

text \<open>The rest of both functions, run when the awaited promise settles.\<close>

definition popular_settled :: "returned promise \<Rightarrow> home \<Rightarrow> home" where
  "popular_settled r st =
     (case r of
        Resolved data \<Rightarrow> st\<lparr>movies := data, loading := False\<rparr>
      | Rejected e \<Rightarrow>
          st\<lparr>error := Some ''Failed to load movies. Please try again later.'', loading := False\<rparr>)"

definition search_settled :: "returned promise \<Rightarrow> home \<Rightarrow> home" where
  "search_settled r st =
     (case r of
        Resolved data \<Rightarrow> st\<lparr>movies := data, loading := False\<rparr>
      | Rejected e \<Rightarrow>
          st\<lparr>error := Some ''Failed to search movies. Please try again.'', loading := False\<rparr>)"

text \<open>
  The effect with dependency \<open>[searchQuery]\<close>: with a non-blank query it sets a 500 ms
  timeout for \<open>handleSearch\<close> and returns the cleanup that clears it; otherwise, when
  \<open>isSearching\<close> holds, it clears the flag and loads the popular movies.
\<close>

definition search_effect :: "home \<Rightarrow> home" where
  "search_effect st =
     (if trim (searchQuery st) \<noteq> []
      then st\<lparr>timers := timers st @ [(next_id st, clock st + 500, searchQuery st)],
              cleanup := Some (next_id st),
              next_id := next_id st + 1\<rparr>
      else (if isSearching st then loadPopularMovies (st\<lparr>isSearching := False\<rparr>) else st)
             \<lparr>cleanup := None\<rparr>)"

definition clearTimeout :: "nat \<Rightarrow> home \<Rightarrow> home" where
  "clearTimeout tid st = st\<lparr>timers := filter (\<lambda>(i, due, q). i \<noteq> tid) (timers st)\<rparr>"

definition run_cleanup :: "home \<Rightarrow> home" where
  "run_cleanup st = (case cleanup st of None \<Rightarrow> st | Some tid \<Rightarrow> clearTimeout tid st)"

text \<open>
  \<open>handleSearchChange\<close>: \<open>setSearchQuery\<close> with the value held already renders nothing;
  with a new value React renders, runs the cleanup of the previous effect, then the
  effect.
\<close>

definition handleSearchChange :: "string \<Rightarrow> home \<Rightarrow> home" where
  "handleSearchChange v st =
     (if v = searchQuery st then st
      else search_effect (run_cleanup (st\<lparr>searchQuery := v\<rparr>)))"

text \<open>
  Time passing: the timeouts that fall due within the next \<open>d\<close> ms fire in the order of
  their due times, each at its due time (the model lets a timeout fire exactly when it
  is due), and each is removed from the pending ones.
\<close>

definition fire :: "home \<Rightarrow> nat \<times> nat \<times> string \<Rightarrow> home" where
  "fire st t =
     (case t of (tid, due, q) \<Rightarrow> handleSearch q ((clearTimeout tid st)\<lparr>clock := due\<rparr>))"

definition advance :: "nat \<Rightarrow> home \<Rightarrow> home" where
  "advance d st =
     (let now = clock st + d;
          due = sort_key (\<lambda>(tid, due, q). due) (filter (\<lambda>(tid, due, q). due \<le> now) (timers st))
      in (foldl fire st due)\<lparr>clock := now\<rparr>)"

datatype event =
    Change string
  | Submit
  | Advance nat
  | PopularSettled "returned promise"
  | SearchSettled "returned promise"

fun step :: "home \<Rightarrow> event \<Rightarrow> home" where
  "step st (Change v) = handleSearchChange v st"
| "step st Submit = handleSearch (searchQuery st) st"
| "step st (Advance d) = advance d st"
| "step st (PopularSettled r) = popular_settled r st"
| "step st (SearchSettled r) = search_settled r st"

text \<open>
  Mounting: the state is initialised, the first effect loads the popular movies and
  the search effect runs on the empty query.
\<close>

definition initial :: home where
  "initial =
     \<lparr>movies = Movies [], searchQuery = [], loading = True, error = None,
      isSearching = False, timers = [], cleanup = None, next_id = 1, clock = 0, calls = []\<rparr>"

definition mount :: home where
  "mount = search_effect (loadPopularMovies initial)"

definition run :: "event list \<Rightarrow> home" where
  "run es = foldl step mount es"

section \<open>Vocabulary of the specification\<close>

text \<open>
  The remote failures that the specification lists: the transport fails, the status is
  not a success, or the body is not JSON.
\<close>

fun remote_failed :: "fetch_result \<Rightarrow> bool" where
  "remote_failed FetchRejected = True"
| "remote_failed (Response ok body) = (\<not> ok \<or> body = None)"

text \<open>A remote service that cannot be reached.\<close>

definition net_down :: "request \<Rightarrow> fetch_result" where
  "net_down req = FetchRejected"

text \<open>
  A remote service that answers every request with a success status and the JSON body
  \<open>{"id": 550, "title": "Fight Club", "results": []}\<close>.
\<close>

definition remote_body :: jsval where
  "remote_body =
     VObj [(''id'', VNum (Finite 550)), (''title'', VStr ''Fight Club''), (''results'', VArr [])]"

definition net_answers :: "request \<Rightarrow> fetch_result" where
  "net_answers req = Response True (Some remote_body)"

text \<open>A blank query: empty, or white space only.\<close>

definition blank :: "string \<Rightarrow> bool" where
  "blank q = list_all is_whitespace q"

text \<open>
  \<open>t\<close> contains \<open>q\<close> as a case-insensitive substring: some stretch of \<open>t\<close> agrees with
  \<open>q\<close> character by character once case is ignored.
\<close>

definition same_ignoring_case :: "char \<Rightarrow> char \<Rightarrow> bool" where
  "same_ignoring_case a b = (lower_char a = lower_char b)"

definition ci_contains :: "string \<Rightarrow> string \<Rightarrow> bool" where
  "ci_contains t q = (\<exists>pre mid suf. t = pre @ mid @ suf \<and> list_all2 same_ignoring_case mid q)"

definition title_matches :: "string \<Rightarrow> movie \<Rightarrow> bool" where
  "title_matches q m = ci_contains (title m) q"

text \<open>
  A decimal rendering with exactly one decimal digit: an optional minus sign, at least
  one digit, a point and one digit.
\<close>

definition is_digit :: "char \<Rightarrow> bool" where
  "is_digit c = (48 \<le> (of_char c :: nat) \<and> (of_char c :: nat) \<le> 57)"

definition one_decimal_digit :: "string \<Rightarrow> bool" where
  "one_decimal_digit s =
     (let b = (if startsWith s ''-'' then tl s else s);
          k = length b
      in 3 \<le> k \<and> list_all is_digit (take (k - 2) b) \<and> b ! (k - 2) = CHR ''.''
         \<and> is_digit (b ! (k - 1)))"

text \<open>
  The inputs that JavaScript treats as false: \<open>undefined\<close>, \<open>null\<close>, \<open>false\<close>, \<open>NaN\<close>,
  zero and the empty string.
\<close>

definition falsy_values :: "jsval list" where
  "falsy_values = [VUndefined, VNull, VBool False, VNum NaN, VNum (Finite 0), VStr []]"

text \<open>
  A stand-in for the engine's \<open>Number::toString\<close> where a closed statement needs one;
  the inputs used with it are below \<open>10^21\<close> or not finite, where it is not consulted.
\<close>

definition plain_n2s :: "rat \<Rightarrow> string" where
  "plain_n2s a = digits (nat \<lfloor>a\<rfloor>)"

text \<open>
  At most one timeout is pending, and it is the one that the cleanup of the last
  search effect will clear; it carries the current query.
\<close>

definition timer_inv :: "home \<Rightarrow> bool" where
  "timer_inv st =
     (timers st = []
      \<or> (\<exists>tid due. timers st = [(tid, due, searchQuery st)] \<and> cleanup st = Some tid))"

section \<open>Facts about the string operations\<close>

lemma trim_empty_iff: "trim s = [] \<longleftrightarrow> blank s"
proof -
  let ?d = "dropWhile is_whitespace s"
  have "trim s = [] \<longleftrightarrow> (\<forall>c\<in>set ?d. is_whitespace c)"
    by (simp add: trim_def dropWhile_eq_Nil_conv)
  also have "\<dots> \<longleftrightarrow> ?d = []"
  proof
    assume a: "\<forall>c\<in>set ?d. is_whitespace c"
    show "?d = []"
    proof (rule ccontr)
      assume n: "?d \<noteq> []"
      then have "\<not> is_whitespace (hd ?d)" by (rule hd_dropWhile)
      moreover from n have "hd ?d \<in> set ?d" by (rule hd_in_set)
      ultimately show False using a by blast
    qed
  next
    assume e: "?d = []"
    show "\<forall>c\<in>set ?d. is_whitespace c" unfolding e by simp
  qed
  also have "\<dots> \<longleftrightarrow> blank s"
    by (simp add: dropWhile_eq_Nil_conv blank_def list_all_iff)
  finally show ?thesis .
qed

lemma startsWith_iff: "startsWith s t \<longleftrightarrow> (\<exists>suf. s = t @ suf)"
  unfolding startsWith_def
proof
  assume "take (length t) s = t"
  then have "s = t @ drop (length t) s" by (metis append_take_drop_id)
  then show "\<exists>suf. s = t @ suf" ..
next
  assume "\<exists>suf. s = t @ suf"
  then show "take (length t) s = t" by auto
qed

lemma str_includes_iff: "str_includes s t \<longleftrightarrow> (\<exists>pre suf. s = pre @ t @ suf)"
proof (induction s)
  case Nil
  then show ?case by auto
next
  case (Cons c s)
  show ?case
  proof
    assume "str_includes (c # s) t"
    then consider "startsWith (c # s) t" | "str_includes s t" by auto
    then show "\<exists>pre suf. c # s = pre @ t @ suf"
    proof cases
      case 1
      then obtain suf where "c # s = t @ suf" by (auto simp: startsWith_iff)
      then have "c # s = [] @ t @ suf" by simp
      then show ?thesis by blast
    next
      case 2
      then obtain pre suf where "s = pre @ t @ suf" using Cons.IH by auto
      then have "c # s = (c # pre) @ t @ suf" by simp
      then show ?thesis by blast
    qed
  next
    assume "\<exists>pre suf. c # s = pre @ t @ suf"
    then obtain pre suf where e: "c # s = pre @ t @ suf" by auto
    show "str_includes (c # s) t"
    proof (cases pre)
      case Nil
      with e have "startsWith (c # s) t" by (auto simp: startsWith_iff)
      then show ?thesis by simp
    next
      case (Cons a pre')
      with e have "s = pre' @ t @ suf" by simp
      then have "str_includes s t" using Cons.IH by blast
      then show ?thesis by simp
    qed
  qed
qed

lemma same_case_map: "list_all2 same_ignoring_case xs ys \<longleftrightarrow> map lower_char xs = map lower_char ys"
  unfolding same_ignoring_case_def
  by (induction xs arbitrary: ys) (auto simp: list_all2_Cons1)

lemma ci_contains_code: "ci_contains t q \<longleftrightarrow> str_includes (toLowerCase t) (toLowerCase q)"
proof
  assume "ci_contains t q"
  then obtain pre mid suf where t: "t = pre @ mid @ suf" and m: "map lower_char mid = map lower_char q"
    by (auto simp: ci_contains_def same_case_map)
  have "toLowerCase t = toLowerCase pre @ toLowerCase q @ toLowerCase suf"
    by (simp add: toLowerCase_def t m)
  then show "str_includes (toLowerCase t) (toLowerCase q)"
    unfolding str_includes_iff by blast
next
  assume "str_includes (toLowerCase t) (toLowerCase q)"
  then obtain P S where "map lower_char t = P @ map lower_char q @ S"
    by (auto simp: str_includes_iff toLowerCase_def)
  then have "\<exists>pre rest. t = pre @ rest \<and> map lower_char q @ S = map lower_char rest"
    unfolding map_eq_append_conv by blast
  then obtain pre rest where t1: "t = pre @ rest" and r: "map lower_char rest = map lower_char q @ S"
    by metis
  from r have "\<exists>mid suf. rest = mid @ suf \<and> map lower_char q = map lower_char mid"
    unfolding map_eq_append_conv by blast
  then obtain mid suf where t2: "rest = mid @ suf" and m: "map lower_char mid = map lower_char q"
    by metis
  from t1 t2 have "t = pre @ mid @ suf" by simp
  with m show "ci_contains t q"
    unfolding ci_contains_def same_case_map by blast
qed


lemma title_matches_code:
  "title_matches q = (\<lambda>m. str_includes (toLowerCase (title m)) (toLowerCase q))"
  by (rule ext) (simp add: title_matches_def ci_contains_code)

section \<open>The catalog client\<close>

lemma DUMMY_MOVIES_length: "length DUMMY_MOVIES = 6"
  by (simp add: DUMMY_MOVIES_def)

subsection \<open>Search\<close>

lemma filter_by_title_Str:
  "filter_by_title (Str q) ms = Inr (filter (title_matches q) ms)"
  by (induction ms) (simp_all add: title_matches_def ci_contains_code)

lemma search_blank_result:
  "blank q \<Longrightarrow> searchMovies k net (Str q) page = (Resolved (Movies []), [])"
  by (simp add: searchMovies_def trim_empty_iff)

text \<open>
  Claim C3. For every query that is empty or consists of white space only,
  \<open>searchMovies\<close> resolves with the empty sequence and has no effect at all: no remote
  call (and no log line), whatever the configured key and whatever the remote service
  would answer.
\<close>

theorem searchMovies_blank_query:
  assumes "blank q"
  shows "fst (searchMovies k net (Str q) page) = Resolved (Movies [])
         \<and> snd (searchMovies k net (Str q) page) = []"
  using assms by (simp add: search_blank_result)

theorem searchMovies_blank_query_witness:
  "blank ''  ''
   \<and> fst (searchMovies None net_down (Str ''  '') 1) = Resolved (Movies [])
   \<and> snd (searchMovies None net_down (Str ''  '') 1) = []"
proof -
  have b: "blank ''  ''" by (simp add: blank_def is_whitespace_def)
  from searchMovies_blank_query [OF b, of None net_down 1] b show ?thesis by simp
qed

text \<open>
  Claim C10. With \<open>undefined\<close> or \<open>null\<close> as the query, \<open>searchMovies\<close> rejects with a
  \<open>TypeError\<close>, for every key and every remote service: the exception of
  \<open>query.trim()\<close> is caught (the one effect is the \<open>console.error\<close> of the handler,
  no request is sent), and the filter of the handler then throws on
  \<open>query.toLowerCase()\<close> with nothing left to catch it.
\<close>

theorem searchMovies_non_string_rejects:
  "searchMovies k net Undefined page
     = (Rejected TypeError, [ConsoleError ''Error searching movies:''])
   \<and> searchMovies k net Null page
     = (Rejected TypeError, [ConsoleError ''Error searching movies:''])"
  by (simp add: searchMovies_def settle_def DUMMY_MOVIES_def)

lemma search_fallback_result:
  assumes "\<not> blank q"
    and "k = Some PLACEHOLDER_KEY \<or> remote_failed (net (search_request k q page))"
  shows "fst (searchMovies k net (Str q) page)
           = Resolved (Movies (filter (title_matches q) DUMMY_MOVIES))"
proof -
  from assms(1) have t: "trim q \<noteq> []" by (simp add: trim_empty_iff)
  show ?thesis
  proof (cases "k = Some PLACEHOLDER_KEY")
    case True
    with t show ?thesis
      by (simp add: searchMovies_def settle_def filter_by_title_Str)
  next
    case False
    with assms(2) have "remote_failed (net (search_request k q page))" by simp
    with t False show ?thesis
      by (cases "net (search_request k q page)")
         (auto simp: searchMovies_def settle_def filter_by_title_Str Let_def)
  qed
qed

lemma filter_inception:
  "filter (title_matches ''inception'') DUMMY_MOVIES = [DUMMY_MOVIES ! 5]"
  unfolding title_matches_code by code_simp

lemma title_inception: "title (DUMMY_MOVIES ! 5) = ''Inception''"
  by (simp add: DUMMY_MOVIES_def)

lemma filter_space:
  "length (filter (title_matches '' '') DUMMY_MOVIES) = 5"
  unfolding title_matches_code by code_simp

text \<open>
  Claim C4, as stated, at the query of one space. The query is not empty and five of
  the six titles contain a space, yet \<open>searchMovies\<close> returns the empty sequence: the
  guard on \<open>query.trim()\<close> answers a blank query before the dataset is looked at.
\<close>

theorem searchMovies_space_query_counterexample:
  "'' '' \<noteq> []
   \<and> fst (searchMovies (Some PLACEHOLDER_KEY) net_down (Str '' '') 1)
       \<noteq> Resolved (Movies (filter (title_matches '' '') DUMMY_MOVIES))"
proof -
  have b: "blank '' ''" by (simp add: blank_def is_whitespace_def)
  have "fst (searchMovies (Some PLACEHOLDER_KEY) net_down (Str '' '') 1) = Resolved (Movies [])"
    by (simp add: search_blank_result [OF b])
  moreover have "filter (title_matches '' '') DUMMY_MOVIES \<noteq> []"
    using filter_space by auto
  ultimately show ?thesis by simp
qed

text \<open>
  With \<open>API_KEY\<close> undefined and a remote service that answers, \<open>searchMovies\<close> returns
  what the remote sent: the comparison with the placeholder does not detect the unset
  key. This is the defect recorded under claim C2; the amended claim C4 below says
  nothing about a missing credential.
\<close>

lemma search_unset_key_returns_remote:
  "fst (searchMovies None net_answers (Str ''inception'') 1) = Resolved (Remote (VArr []))"
  by (simp add: searchMovies_def net_answers_def remote_body_def trim_empty_iff blank_def
        is_whitespace_def)

text \<open>
  Claim C4, amended. For every query that is not blank (not empty and not white space
  only), whatever the key, when the remote call fails (transport error, status not ok,
  body not JSON), \<open>searchMovies\<close> resolves with exactly the fallback records whose
  title contains the query as a case-insensitive substring, in the order of the
  dataset. For the query \<open>inception\<close> the result is the single record titled
  Inception.
\<close>

theorem searchMovies_fallback_filter:
  assumes "\<not> blank q"
    and "remote_failed (net (search_request k q page))"
  shows "fst (searchMovies k net (Str q) page)
           = Resolved (Movies (filter (title_matches q) DUMMY_MOVIES))"
  using assms by (simp add: search_fallback_result)

theorem searchMovies_fallback_filter_witness:
  "\<not> blank ''inception''
   \<and> remote_failed (net_down (search_request None ''inception'' 1))
   \<and> fst (searchMovies None net_down (Str ''inception'') 1) = Resolved (Movies [DUMMY_MOVIES ! 5])
   \<and> title (DUMMY_MOVIES ! 5) = ''Inception''"
proof -
  have b: "\<not> blank ''inception''" by (simp add: blank_def is_whitespace_def)
  have f: "remote_failed (net_down (search_request None ''inception'' 1))"
    by (simp add: net_down_def)
  from searchMovies_fallback_filter [of "''inception''" net_down None 1] b f show ?thesis
    by (simp add: filter_inception title_inception)
qed

subsection \<open>Popular movies\<close>

lemma fetchPopularMovies_placeholder:
  "fetchPopularMovies (Some PLACEHOLDER_KEY) net page
     = (Resolved (Movies DUMMY_MOVIES), [ConsoleWarn WARN_DUMMY])"
  by (simp add: fetchPopularMovies_def)

lemma fetchPopularMovies_failed:
  "remote_failed (net (popular_request k page)) \<Longrightarrow>
   fst (fetchPopularMovies k net page) = Resolved (Movies DUMMY_MOVIES)"
  by (cases "net (popular_request k page)")
     (auto simp: fetchPopularMovies_def Let_def)

lemma fetchPopularMovies_resolves:
  "\<exists>v. fst (fetchPopularMovies k net page) = Resolved v"
  by (cases "net (popular_request k page)")
     (auto simp: fetchPopularMovies_def Let_def split: option.splits sum.splits)

text \<open>
  What the code does give: \<open>fetchPopularMovies\<close> resolves for every key, every remote
  outcome and every page, and when the key is the placeholder string, or the remote
  call fails (the transport fails, the status is not ok, or the body is not JSON), it
  resolves with exactly \<open>DUMMY_MOVIES\<close>, which has six records.
\<close>

lemma popular_resolves_and_falls_back:
  "(\<exists>v. fst (fetchPopularMovies k net page) = Resolved v)
   \<and> (k = Some PLACEHOLDER_KEY \<or> remote_failed (net (popular_request k page))
        \<longrightarrow> fst (fetchPopularMovies k net page) = Resolved (Movies DUMMY_MOVIES))
   \<and> length DUMMY_MOVIES = 6"
  using fetchPopularMovies_resolves [of k net page]
  by (auto simp: fetchPopularMovies_placeholder fetchPopularMovies_failed DUMMY_MOVIES_length)

text \<open>
  Claim C1, at the input where the code departs from it. The claim counts a missing
  credential among the cases that end in \<open>DUMMY_MOVIES\<close>. With
  \<open>REACT_APP_TMDB_API_KEY\<close> not set, \<open>API_KEY\<close> is \<open>undefined\<close>; the comparison with the
  placeholder does not detect it, the request is sent, and when the remote service
  answers, \<open>fetchPopularMovies\<close> resolves with the \<open>results\<close> of that answer (here the
  empty array) and not with the six fallback records. The promise does resolve. It is
  the defect of claim C2.
\<close>

theorem fetchPopularMovies_unset_key_returns_remote:
  "fetchPopularMovies None net_answers 1
     = (Resolved (Remote (VArr [])), [Fetch (popular_request None 1)])
   \<and> fst (fetchPopularMovies None net_answers 1) \<noteq> Resolved (Movies DUMMY_MOVIES)"
  by (simp add: fetchPopularMovies_def net_answers_def remote_body_def)

lemma popular_url_unset:
  "url (popular_request None 1)
     = ''https://api.themoviedb.org/3/movie/popular?api_key=undefined&language=en-US&page=1''"
  by code_simp


text \<open>
  Claim C2, at the input where the code departs from it. With
  \<open>REACT_APP_TMDB_API_KEY\<close> not set, \<open>API_KEY\<close> is \<open>undefined\<close>, which is not the
  placeholder string: the comparison does not detect it and \<open>fetchPopularMovies\<close>
  sends the request, with the text \<open>undefined\<close> as the key, whatever the remote service
  then answers.
\<close>

theorem fetchPopularMovies_unset_key_fetches:
  "Fetch (popular_request None page) \<in> set (snd (fetchPopularMovies None net page))
   \<and> url (popular_request None 1)
       = ''https://api.themoviedb.org/3/movie/popular?api_key=undefined&language=en-US&page=1''"
proof -
  have "Fetch (popular_request None page) \<in> set (snd (fetchPopularMovies None net page))"
    by (cases "net (popular_request None page)")
       (auto simp: fetchPopularMovies_def Let_def split: option.splits sum.splits)
  then show ?thesis using popular_url_unset by blast
qed

subsection \<open>Movie details\<close>

lemma distinct_ids: "distinct (map movie_id DUMMY_MOVIES)"
  by (simp add: DUMMY_MOVIES_def)

lemma fallback_movie_in: "fallback_movie x \<in> set DUMMY_MOVIES"
proof (cases "find (\<lambda>m. Some (movie_id m) = parseInt x) DUMMY_MOVIES")
  case None
  then show ?thesis by (simp add: fallback_movie_def DUMMY_MOVIES_def)
next
  case (Some m)
  then have "m \<in> set DUMMY_MOVIES" by (auto simp: find_Some_iff)
  with Some show ?thesis by (simp add: fallback_movie_def)
qed

lemma fallback_movie_match:
  assumes "m' \<in> set DUMMY_MOVIES" and "parseInt x = Some (movie_id m')"
  shows "fallback_movie x = m'"
proof (cases "find (\<lambda>m. Some (movie_id m) = parseInt x) DUMMY_MOVIES")
  case None
  with assms show ?thesis by (auto simp: find_None_iff)
next
  case (Some m)
  then have "m \<in> set DUMMY_MOVIES" and "movie_id m = movie_id m'"
    using assms(2) by (auto simp: find_Some_iff)
  with assms(1) distinct_ids have "m = m'"
    by (meson distinct_map inj_onD)
  with Some show ?thesis by (simp add: fallback_movie_def)
qed

lemma fallback_movie_no_match:
  assumes "\<forall>m'\<in>set DUMMY_MOVIES. parseInt x \<noteq> Some (movie_id m')"
  shows "fallback_movie x = DUMMY_MOVIES ! 0"
proof -
  from assms have "find (\<lambda>m. Some (movie_id m) = parseInt x) DUMMY_MOVIES = None"
    by (auto simp: find_None_iff)
  then show ?thesis by (simp add: fallback_movie_def)
qed

lemma first_movie: "movie_id (DUMMY_MOVIES ! 0) = 1 \<and> title (DUMMY_MOVIES ! 0) = ''The Shawshank Redemption''"
  by (simp add: DUMMY_MOVIES_def)

lemma details_fallback_result:
  assumes "k = Some PLACEHOLDER_KEY \<or> remote_failed (net (details_request k x))"
  shows "fst (fetchMovieDetails k net x) = Resolved (OneMovie (fallback_movie x))"
proof (cases "k = Some PLACEHOLDER_KEY")
  case True
  then show ?thesis by (simp add: fetchMovieDetails_def)
next
  case False
  with assms have "remote_failed (net (details_request k x))" by simp
  with False show ?thesis
    by (cases "net (details_request k x)") (auto simp: fetchMovieDetails_def Let_def)
qed

text \<open>
  What the code does give: for every id (a string, \<open>undefined\<close> or \<open>null\<close>), when the
  key is the placeholder string or the remote call fails, \<open>fetchMovieDetails\<close>
  resolves with a record of the fallback dataset: the record whose id is \<open>parseInt\<close> of
  the requested id when there is one, and otherwise the first record, which has id 1
  and the title The Shawshank Redemption.
\<close>

lemma details_fallback_lookup:
  assumes "k = Some PLACEHOLDER_KEY \<or> remote_failed (net (details_request k x))"
  shows "\<exists>m. fst (fetchMovieDetails k net x) = Resolved (OneMovie m)
           \<and> m \<in> set DUMMY_MOVIES
           \<and> (\<forall>m'\<in>set DUMMY_MOVIES. parseInt x = Some (movie_id m') \<longrightarrow> m = m')
           \<and> ((\<forall>m'\<in>set DUMMY_MOVIES. parseInt x \<noteq> Some (movie_id m'))
                \<longrightarrow> m = DUMMY_MOVIES ! 0 \<and> movie_id m = 1
                    \<and> title m = ''The Shawshank Redemption'')"
proof (intro exI conjI)
  show "fst (fetchMovieDetails k net x) = Resolved (OneMovie (fallback_movie x))"
    using assms by (rule details_fallback_result)
  show "fallback_movie x \<in> set DUMMY_MOVIES" by (rule fallback_movie_in)
  show "\<forall>m'\<in>set DUMMY_MOVIES. parseInt x = Some (movie_id m') \<longrightarrow> fallback_movie x = m'"
    by (auto intro: fallback_movie_match)
  show "(\<forall>m'\<in>set DUMMY_MOVIES. parseInt x \<noteq> Some (movie_id m'))
          \<longrightarrow> fallback_movie x = DUMMY_MOVIES ! 0 \<and> movie_id (fallback_movie x) = 1
              \<and> title (fallback_movie x) = ''The Shawshank Redemption''"
    using first_movie by (auto simp: fallback_movie_no_match)
qed

lemma fallback_movie_6: "fallback_movie (Str ''6'') = DUMMY_MOVIES ! 5"
  by code_simp

lemma fallback_movie_77: "fallback_movie (Str ''77'') = DUMMY_MOVIES ! 0"
  by code_simp

lemma details_fallback_examples:
  "fst (fetchMovieDetails None net_down (Str ''77'')) = Resolved (OneMovie (DUMMY_MOVIES ! 0))
   \<and> fst (fetchMovieDetails (Some PLACEHOLDER_KEY) net_down (Str ''6''))
       = Resolved (OneMovie (DUMMY_MOVIES ! 5))"
  by (simp add: details_fallback_result net_down_def fallback_movie_6 fallback_movie_77)

lemma parseInt_6: "parseInt (Str ''6'') = Some (movie_id (DUMMY_MOVIES ! 5))"
  by code_simp

text \<open>
  Claim C5, at the input where the code departs from it. The claim counts no
  credential configured as fallback mode. With \<open>REACT_APP_TMDB_API_KEY\<close> not set,
  \<open>API_KEY\<close> is \<open>undefined\<close>; the comparison with the placeholder does not detect it,
  the request for id 6 is sent, and when the remote service answers,
  \<open>fetchMovieDetails\<close> resolves with the body of that answer and not with the fallback
  record of id 6 (nor with any fallback record). The promise does resolve. It is the
  defect of claim C2.
\<close>

theorem fetchMovieDetails_unset_key_returns_remote:
  "fetchMovieDetails None net_answers (Str ''6'')
     = (Resolved (Remote remote_body), [Fetch (details_request None (Str ''6''))])
   \<and> parseInt (Str ''6'') = Some (movie_id (DUMMY_MOVIES ! 5))
   \<and> fst (fetchMovieDetails None net_answers (Str ''6''))
       \<noteq> Resolved (OneMovie (DUMMY_MOVIES ! 5))"
  using parseInt_6
  by (simp add: fetchMovieDetails_def net_answers_def)

section \<open>The formatting helpers\<close>

lemma digit_char_is_digit: "d < 10 \<Longrightarrow> is_digit (digit_char d)"
  by (simp add: is_digit_def digit_char_def)

lemma digits_small: "n < 10 \<Longrightarrow> digits n = [digit_char n]"
  by (simp add: digits.simps)

lemma digits_large: "\<not> n < 10 \<Longrightarrow> digits n = digits (n div 10) @ [digit_char (n mod 10)]"
  by (subst digits.simps) simp

lemma digits_all_digit: "list_all is_digit (digits n)"
proof (induction n rule: digits.induct)
  case (1 n)
  show ?case
  proof (cases "n < 10")
    case True
    then show ?thesis by (simp add: digits_small digit_char_is_digit)
  next
    case False
    with 1 show ?thesis by (simp add: digits_large digit_char_is_digit)
  qed
qed

lemma digits_nonempty: "digits n \<noteq> []"
  by (cases "n < 10") (simp_all add: digits_small digits_large)

lemma digits_0: "digits 0 = ''0''"
  by code_simp

text \<open>The padding and the point of \<open>toFixed(1)\<close> split the digits of \<open>n\<close> before the last one.\<close>

lemma toFixed_1_finite:
  assumes "\<bar>r\<bar> < 10 ^ 21"
  shows "toFixed n2s 1 (Finite r)
           = Inr ((if r < 0 then ''-'' else [])
                  @ digits (nat \<lfloor>\<bar>r\<bar> * 10 + 1 / 2\<rfloor> div 10) @ ''.''
                  @ [digit_char (nat \<lfloor>\<bar>r\<bar> * 10 + 1 / 2\<rfloor> mod 10)])"
proof -
  define n where "n = nat \<lfloor>\<bar>r\<bar> * 10 + 1 / 2\<rfloor>"
  let ?m = "digits n"
  let ?m2 = "if length ?m \<le> 1 then replicate (1 + 1 - length ?m) CHR ''0'' @ ?m else ?m"
  have split: "take (length ?m2 - 1) ?m2 = digits (n div 10) \<and> drop (length ?m2 - 1) ?m2 = [digit_char (n mod 10)]"
  proof (cases "n < 10")
    case True
    then have "n div 10 = 0" "n mod 10 = n" by simp_all
    with True show ?thesis by (simp add: digits_small digits_0)
  next
    case False
    have "length (digits (n div 10)) \<ge> 1"
      using digits_nonempty [of "n div 10"] by (cases "digits (n div 10)") simp_all
    with False show ?thesis by (simp add: digits_large digits_nonempty)
  qed
  from assms have "\<not> \<bar>r\<bar> \<ge> 10 ^ 21" by simp
  then have "toFixed n2s 1 (Finite r)
      = Inr ((if r < 0 then ''-'' else []) @ take (length ?m2 - 1) ?m2 @ ''.'' @ drop (length ?m2 - 1) ?m2)"
    unfolding toFixed_def Let_def n_def by simp
  with split show ?thesis unfolding n_def by simp
qed

lemma round_tenths:
  fixes a :: rat
  assumes "0 \<le> a"
  shows "\<bar>of_nat (nat \<lfloor>a * 10 + 1 / 2\<rfloor>) / 10 - a\<bar> \<le> 1 / 20"
proof -
  let ?y = "a * 10 + 1 / 2"
  from assms have "0 \<le> \<lfloor>?y\<rfloor>" by simp
  then have n: "(of_nat (nat \<lfloor>?y\<rfloor>) :: rat) = of_int \<lfloor>?y\<rfloor>" by simp
  have "of_int \<lfloor>?y\<rfloor> \<le> ?y" and "?y < of_int \<lfloor>?y\<rfloor> + 1" by linarith+
  then show ?thesis unfolding n by linarith
qed

lemma one_decimal_digit_render:
  assumes "u < 10"
  shows "one_decimal_digit ((if neg then ''-'' else []) @ digits d @ ''.'' @ [digit_char u])"
proof -
  let ?b = "digits d @ ''.'' @ [digit_char u]"
  have nm: "\<not> startsWith ?b ''-''"
  proof
    assume "startsWith ?b ''-''"
    then have "hd (digits d) = CHR ''-''"
      using digits_nonempty [of d] by (cases "digits d") (simp_all add: startsWith_def)
    moreover have "is_digit (hd (digits d))"
      using digits_all_digit [of d] digits_nonempty [of d] by (cases "digits d") simp_all
    ultimately show False by (simp add: is_digit_def)
  qed
  have body: "(if startsWith ((if neg then ''-'' else []) @ ?b) ''-''
               then tl ((if neg then ''-'' else []) @ ?b) else (if neg then ''-'' else []) @ ?b) = ?b"
    using nm by (cases neg) (simp_all add: startsWith_def)
  have len: "length ?b = length (digits d) + 2" by simp
  have l1: "length (digits d) \<ge> 1"
    using digits_nonempty [of d] by (cases "digits d") simp_all
  show ?thesis
    unfolding one_decimal_digit_def Let_def body
    using l1 assms digits_all_digit [of d]
    by (simp add: nth_append digit_char_is_digit)
qed

lemma formatRating_falsy:
  "v \<in> set falsy_values \<Longrightarrow> formatRating n2s v = Inr ''N/A''"
  by (auto simp: falsy_values_def formatRating_def)

lemma formatRating_finite:
  assumes "r \<noteq> 0" and "\<bar>r\<bar> < 10 ^ 21"
  shows "formatRating n2s (VNum (Finite r))
           = Inr ((if r < 0 then ''-'' else [])
                  @ digits (nat \<lfloor>\<bar>r\<bar> * 10 + 1 / 2\<rfloor> div 10) @ ''.''
                  @ [digit_char (nat \<lfloor>\<bar>r\<bar> * 10 + 1 / 2\<rfloor> mod 10)])"
proof -
  have "formatRating n2s (VNum (Finite r)) = toFixed n2s 1 (Finite r)"
    using assms(1) by (simp add: formatRating_def del: One_nat_def)
  also note toFixed_1_finite [OF assms(2), of n2s]
  finally show ?thesis .
qed

lemma formatRating_8_7:
  "formatRating n2s (VNum (Finite (2448832297382707 / 281474976710656))) = Inr ''8.7''"
  by code_simp

lemma double_8_7: "\<bar>(2448832297382707 / 281474976710656 :: rat) - 87 / 10\<bar> \<le> 1 / 2 ^ 50"
  by simp

text \<open>
  Claim C6, as stated, at the input \<open>Infinity\<close>: it is a number and it is not falsy,
  and \<open>formatRating\<close> returns the text \<open>Infinity\<close>, which has no decimal digit.
\<close>

theorem formatRating_infinity_counterexample:
  "truthy (VNum PosInfinity)
   \<and> formatRating plain_n2s (VNum PosInfinity) = Inr ''Infinity''
   \<and> \<not> one_decimal_digit ''Infinity''"
  by code_simp

text \<open>
  Claim C6, amended. \<open>formatRating\<close> maps every falsy input (\<open>undefined\<close>, \<open>null\<close>,
  \<open>false\<close>, \<open>NaN\<close>, zero, the empty string) to \<open>N/A\<close>, and every other finite number of
  magnitude below \<open>10^21\<close> to its decimal rendering with exactly one decimal digit:
  a minus sign when negative, then the digits of \<open>n div 10\<close>, a point and the digit
  \<open>n mod 10\<close>, where \<open>n / 10\<close> is within one twentieth of the magnitude. In particular
  \<open>formatRating(0)\<close> and \<open>formatRating(undefined)\<close> are \<open>N/A\<close> and \<open>formatRating(8.7)\<close>
  is \<open>8.7\<close> (the argument being the double that the literal denotes). From \<open>10^21\<close> on
  the result is in exponent notation.
\<close>

theorem formatRating_one_decimal:
  "(v \<in> set falsy_values \<longrightarrow> formatRating n2s v = Inr ''N/A'')
   \<and> (r \<noteq> 0 \<and> \<bar>r\<bar> < 10 ^ 21 \<longrightarrow>
        (\<exists>n s. formatRating n2s (VNum (Finite r)) = Inr s
           \<and> s = (if r < 0 then ''-'' else []) @ digits (n div 10) @ ''.'' @ [digit_char (n mod 10)]
           \<and> one_decimal_digit s
           \<and> \<bar>of_nat n / 10 - \<bar>r\<bar>\<bar> \<le> 1 / 20))
   \<and> formatRating n2s (VNum (Finite 0)) = Inr ''N/A''
   \<and> formatRating n2s VUndefined = Inr ''N/A''
   \<and> formatRating n2s (VNum (Finite (2448832297382707 / 281474976710656))) = Inr ''8.7''"
proof (intro conjI impI)
  assume "v \<in> set falsy_values"
  then show "formatRating n2s v = Inr ''N/A''" by (rule formatRating_falsy)
next
  assume a: "r \<noteq> 0 \<and> \<bar>r\<bar> < 10 ^ 21"
  let ?n = "nat \<lfloor>\<bar>r\<bar> * 10 + 1 / 2\<rfloor>"
  let ?s = "(if r < 0 then ''-'' else []) @ digits (?n div 10) @ ''.'' @ [digit_char (?n mod 10)]"
  have "formatRating n2s (VNum (Finite r)) = Inr ?s"
    using a by (simp add: formatRating_finite)
  moreover have "one_decimal_digit ?s"
    by (rule one_decimal_digit_render) simp
  moreover have "\<bar>of_nat ?n / 10 - \<bar>r\<bar>\<bar> \<le> 1 / 20"
    by (rule round_tenths) simp
  ultimately show "\<exists>n s. formatRating n2s (VNum (Finite r)) = Inr s
           \<and> s = (if r < 0 then ''-'' else []) @ digits (n div 10) @ ''.'' @ [digit_char (n mod 10)]
           \<and> one_decimal_digit s
           \<and> \<bar>of_nat n / 10 - \<bar>r\<bar>\<bar> \<le> 1 / 20"
    by blast
next
  show "formatRating n2s (VNum (Finite 0)) = Inr ''N/A''" by (simp add: formatRating_def)
  show "formatRating n2s VUndefined = Inr ''N/A''" by (simp add: formatRating_def)
  show "formatRating n2s (VNum (Finite (2448832297382707 / 281474976710656))) = Inr ''8.7''"
    by (rule formatRating_8_7)
qed

theorem formatRating_one_decimal_witness:
  "VNum NaN \<in> set falsy_values
   \<and> formatRating plain_n2s (VNum NaN) = Inr ''N/A''
   \<and> (17 / 2 :: rat) \<noteq> 0 \<and> \<bar>17 / 2 :: rat\<bar> < 10 ^ 21
   \<and> formatRating plain_n2s (VNum (Finite (17 / 2))) = Inr ''8.5''"
proof -
  have f: "VNum NaN \<in> set falsy_values" by (simp add: falsy_values_def)
  have r: "(17 / 2 :: rat) \<noteq> 0 \<and> \<bar>17 / 2 :: rat\<bar> < 10 ^ 21" by simp
  have e: "formatRating plain_n2s (VNum (Finite (17 / 2))) = Inr ''8.5''" by code_simp
  from formatRating_one_decimal [of "VNum NaN" plain_n2s "17 / 2"] f r e
  show ?thesis by simp
qed

text \<open>
  Claim C7. \<open>getImageUrl\<close> returns the placeholder URL for every absent path
  (\<open>undefined\<close>, \<open>null\<close>, or the empty string, which is falsy as well) and any size
  token, and for every other path the image host base, a slash, the size token and the
  path, joined as they are: the size token is not inspected (an omitted size is
  \<open>w500\<close>). In particular
  \<open>getImageUrl("/abc.jpg", "w500")\<close> is \<open>https://image.tmdb.org/t/p/w500/abc.jpg\<close>.
\<close>

theorem getImageUrl_placeholder_or_concat:
  "(path \<in> {Undefined, Null, Str []} \<longrightarrow> getImageUrl path tok = PLACEHOLDER_IMAGE)
   \<and> (p \<noteq> [] \<longrightarrow>
        getImageUrl (Str p) (Some sz) = ''https://image.tmdb.org/t/p'' @ ''/'' @ sz @ p
        \<and> getImageUrl (Str p) None = ''https://image.tmdb.org/t/p'' @ ''/'' @ ''w500'' @ p)
   \<and> getImageUrl (Str ''/abc.jpg'') (Some ''w500'') = ''https://image.tmdb.org/t/p/w500/abc.jpg''
   \<and> PLACEHOLDER_IMAGE = ''https://via.placeholder.com/500x750?text=No+Image''"
  by (auto simp: getImageUrl_def IMAGE_BASE_URL_def PLACEHOLDER_IMAGE_def)

theorem getImageUrl_placeholder_or_concat_witness:
  "Undefined \<in> {Undefined, Null, Str []}
   \<and> getImageUrl Undefined (Some ''original'') = PLACEHOLDER_IMAGE
   \<and> ''/abc.jpg'' \<noteq> []
   \<and> getImageUrl (Str ''/abc.jpg'') (Some ''w200'') = ''https://image.tmdb.org/t/p/w200/abc.jpg''"
  using getImageUrl_placeholder_or_concat [of Undefined "Some ''original''" "''/abc.jpg''" "''w200''"]
  by simp

section \<open>The list view\<close>

lemma timer_inv_cases:
  assumes "timer_inv st"
  obtains "timers st = []"
  | tid due where "timers st = [(tid, due, searchQuery st)]" and "cleanup st = Some tid"
  using assms unfolding timer_inv_def by blast

lemma timers_after_cleanup:
  assumes "timer_inv st"
  shows "timers (run_cleanup (st\<lparr>searchQuery := v\<rparr>)) = []"
  using assms
  by (rule timer_inv_cases) (auto simp: run_cleanup_def clearTimeout_def split: option.splits)

lemma run_cleanup_fields:
  "searchQuery (run_cleanup st) = searchQuery st"
  "isSearching (run_cleanup st) = isSearching st"
  "calls (run_cleanup st) = calls st"
  "clock (run_cleanup st) = clock st"
  "next_id (run_cleanup st) = next_id st"
  by (simp_all add: run_cleanup_def clearTimeout_def split: option.splits)

lemma change_nonblank:
  assumes "timer_inv st" and "\<not> blank v" and "v \<noteq> searchQuery st"
  shows "timers (handleSearchChange v st) = [(next_id st, clock st + 500, v)]"
    and "cleanup (handleSearchChange v st) = Some (next_id st)"
    and "searchQuery (handleSearchChange v st) = v"
    and "calls (handleSearchChange v st) = calls st"
    and "clock (handleSearchChange v st) = clock st"
  using assms(2,3) timers_after_cleanup [OF assms(1), of v]
  by (simp_all add: handleSearchChange_def search_effect_def trim_empty_iff run_cleanup_fields)

lemma change_blank:
  assumes "timer_inv st" and "blank v" and "v \<noteq> searchQuery st"
  shows "timers (handleSearchChange v st) = []"
    and "\<not> isSearching (handleSearchChange v st)"
    and "calls (handleSearchChange v st)
           = calls st @ (if isSearching st then [(clock st, FetchPopularMovies)] else [])"
  using assms(2,3) timers_after_cleanup [OF assms(1), of v]
  by (simp_all add: handleSearchChange_def search_effect_def trim_empty_iff run_cleanup_fields
        loadPopularMovies_def)

lemma advance_no_timer:
  "timers st = [] \<Longrightarrow> advance d st = st\<lparr>clock := clock st + d\<rparr>"
  by (simp add: advance_def)

lemma advance_one_timer:
  assumes "timers st = [(tid, due, q)]"
  shows "calls (advance d st)
           = calls st @ (if due \<le> clock st + d then [(due, SearchMovies q)] else [])"
    and "timers (advance d st) = (if due \<le> clock st + d then [] else [(tid, due, q)])"
    and "searchQuery (advance d st) = searchQuery st"
    and "cleanup (advance d st) = cleanup st"
  using assms
  by (simp_all add: advance_def Let_def fire_def handleSearch_def clearTimeout_def)

lemma timer_inv_step: "timer_inv st \<Longrightarrow> timer_inv (step st e)"
proof (cases e)
  case (Change v)
  assume i: "timer_inv st"
  show ?thesis
  proof (cases "v = searchQuery st")
    case True
    with i Change show ?thesis by (simp add: handleSearchChange_def)
  next
    case False
    show ?thesis
    proof (cases "blank v")
      case True
      with change_blank(1) [OF i True False] Change show ?thesis
        by (simp add: timer_inv_def)
    next
      case b: False
      from change_nonblank(1,2,3) [OF i b False] Change show ?thesis
        by (simp add: timer_inv_def)
    qed
  qed
next
  case Submit
  assume "timer_inv st"
  with Submit show ?thesis by (simp add: timer_inv_def handleSearch_def)
next
  case (Advance d)
  assume i: "timer_inv st"
  from i show ?thesis
  proof (rule timer_inv_cases)
    assume "timers st = []"
    with Advance show ?thesis by (simp add: advance_no_timer timer_inv_def)
  next
    fix tid due
    assume t: "timers st = [(tid, due, searchQuery st)]" and c: "cleanup st = Some tid"
    from advance_one_timer(2,3,4) [OF t, of d] c Advance show ?thesis
      by (simp add: timer_inv_def)
  qed
next
  case (PopularSettled r)
  assume "timer_inv st"
  with PopularSettled show ?thesis
    by (simp add: timer_inv_def popular_settled_def split: promise.splits)
next
  case (SearchSettled r)
  assume "timer_inv st"
  with SearchSettled show ?thesis
    by (simp add: timer_inv_def search_settled_def split: promise.splits)
qed

lemma timer_inv_mount: "timer_inv mount"
  by (simp add: timer_inv_def mount_def search_effect_def loadPopularMovies_def initial_def trim_def)

lemma timer_inv_run: "timer_inv (run es)"
  unfolding run_def
  by (induction es rule: rev_induct) (simp_all add: timer_inv_mount timer_inv_step)

lemma run_snoc: "run (es @ [e]) = step (run es) e"
  by (simp add: run_def)

text \<open>
  Claim C8. In every state that the list view can reach, a keystroke that changes the
  search text to a non-blank value leaves exactly one pending timeout: the one it
  starts, due 500 ms later and carrying the new text (a timeout pending before is
  cancelled); the keystroke itself issues no request; and in the quiet period of \<open>d\<close>
  ms that follows, no search is issued when \<open>d < 500\<close> and exactly one when
  \<open>500 \<le> d\<close>, 500 ms after the keystroke, with the new text. For keystrokes at 0, 100 and
  200 ms nothing is issued up to 699 ms, and one search, for the last text, is issued
  at 700 ms.
\<close>

theorem debounce_single_search:
  assumes "\<not> blank v" and "v \<noteq> searchQuery (run es)"
  shows "timers (run (es @ [Change v])) = [(next_id (run es), clock (run es) + 500, v)]
         \<and> calls (run (es @ [Change v])) = calls (run es)
         \<and> calls (run (es @ [Change v, Advance d]))
             = calls (run es) @ (if 500 \<le> d then [(clock (run es) + 500, SearchMovies v)] else [])"
proof -
  let ?st = "run es" and ?st' = "run (es @ [Change v])"
  have s: "?st' = handleSearchChange v ?st" by (simp add: run_snoc)
  have t: "timers ?st' = [(next_id ?st, clock ?st + 500, v)]"
    and c: "calls ?st' = calls ?st" and k: "clock ?st' = clock ?st"
    unfolding s using change_nonblank [OF timer_inv_run assms] by simp_all
  have "run (es @ [Change v, Advance d]) = advance d ?st'"
    using run_snoc [of "es @ [Change v]" "Advance d"] by simp
  then have "calls (run (es @ [Change v, Advance d]))
      = calls ?st' @ (if clock ?st + 500 \<le> clock ?st' + d then [(clock ?st + 500, SearchMovies v)] else [])"
    using advance_one_timer(1) [OF t, of d] by simp
  with t c k show ?thesis by simp
qed

lemma scenario_prefix:
  "calls (run [Change ''a'', Advance 100, Change ''ab'', Advance 100]) = [(0, FetchPopularMovies)]"
  "clock (run [Change ''a'', Advance 100, Change ''ab'', Advance 100]) = 200"
  "searchQuery (run [Change ''a'', Advance 100, Change ''ab'', Advance 100]) = ''ab''"
  by code_simp+

theorem debounce_single_search_witness:
  "\<not> blank ''abc''
   \<and> ''abc'' \<noteq> searchQuery (run [Change ''a'', Advance 100, Change ''ab'', Advance 100])
   \<and> calls (run [Change ''a'', Advance 100, Change ''ab'', Advance 100, Change ''abc'', Advance 499])
       = [(0, FetchPopularMovies)]
   \<and> calls (run [Change ''a'', Advance 100, Change ''ab'', Advance 100, Change ''abc'', Advance 500])
       = [(0, FetchPopularMovies), (700, SearchMovies ''abc'')]"
proof -
  let ?es = "[Change ''a'', Advance 100, Change ''ab'', Advance 100]"
  have b: "\<not> blank ''abc''" by (simp add: blank_def is_whitespace_def)
  have n: "''abc'' \<noteq> searchQuery (run ?es)" by (simp add: scenario_prefix)
  from debounce_single_search [OF b n, of 499] debounce_single_search [OF b n, of 500] b n
  show ?thesis by (simp add: scenario_prefix)
qed

text \<open>
  Claim C9. In every state that the list view can reach, a change of the search text
  to a blank value leaves no timeout pending and search mode off; when search mode was
  on, exactly one call of \<open>fetchPopularMovies\<close> is issued, and when it was off, no call
  is issued.
\<close>

theorem clear_search_reloads_popular:
  assumes "blank v" and "v \<noteq> searchQuery (run es)"
  shows "timers (run (es @ [Change v])) = []
         \<and> \<not> isSearching (run (es @ [Change v]))
         \<and> calls (run (es @ [Change v]))
             = calls (run es) @ (if isSearching (run es) then [(clock (run es), FetchPopularMovies)] else [])"
  using change_blank [OF timer_inv_run assms] by (simp add: run_snoc)

lemma clear_prefix:
  "calls (run [Change ''a'', Advance 500]) = [(0, FetchPopularMovies), (500, SearchMovies ''a'')]"
  "clock (run [Change ''a'', Advance 500]) = 500"
  "searchQuery (run [Change ''a'', Advance 500]) = ''a''"
  "isSearching (run [Change ''a'', Advance 500])"
  by code_simp+

theorem clear_search_reloads_popular_witness:
  "blank [] \<and> [] \<noteq> searchQuery (run [Change ''a'', Advance 500])
   \<and> isSearching (run [Change ''a'', Advance 500])
   \<and> \<not> isSearching (run [Change ''a'', Advance 500, Change []])
   \<and> calls (run [Change ''a'', Advance 500, Change []])
       = [(0, FetchPopularMovies), (500, SearchMovies ''a''), (500, FetchPopularMovies)]"
proof -
  let ?es = "[Change ''a'', Advance 500]"
  have b: "blank []" by (simp add: blank_def)
  have n: "[] \<noteq> searchQuery (run ?es)" by (simp add: clear_prefix)
  from clear_search_reloads_popular [OF b n] b n
  show ?thesis by (simp add: clear_prefix)
qed

end
